theory Spec2Isabelle
  imports Main "HOL-Library.Monad_Syntax" "HOL-Library.Word"
begin

section \<open>Values, remote objects and local resource state\<close>

text \<open>
  The embedding follows \<^verbatim>\<open>digitalocean/database/resource_database_logsink.go\<close>.
  Go's \<^verbatim>\<open>interface{}\<close> is a datatype of dynamically typed values, a type assertion
  \<^verbatim>\<open>v.(T)\<close> is a partial projection (\<open>None\<close> is the run-time panic), a nil pointer is
  \<open>None\<close>, and every operation returns the resource data it leaves behind, its outcome
  and the calls it made on the lock table and on the API client, in order.
\<close>

text \<open>The bit pattern of a Go \<^verbatim>\<open>float32\<close>; the code only moves such values around.\<close>

type_synonym float32 = "32 word"

text \<open>\<^verbatim>\<open>godo.DatabaseLogsinkConfig\<close>, with the field types that the assertions of
  \<^verbatim>\<open>expandLogsinkConfig\<close> name.\<close>

record DatabaseLogsinkConfig =
  URL :: string
  IndexPrefix :: string
  IndexDaysMax :: int
  Timeout :: float32
  Server :: string
  Port :: int
  TLS :: bool
  Format :: string
  Logline :: string
  SD :: string
  CA :: string
  Key :: string
  Cert :: string

text \<open>A value held in an \<^verbatim>\<open>interface{}\<close>. A Go map is an association list read with
  \<open>map_of\<close>; \<open>VList\<close> is a slice, \<open>VConfig\<close> a \<^verbatim>\<open>*godo.DatabaseLogsinkConfig\<close>.\<close>

datatype val =
    VNil
  | VString string
  | VInt int
  | VFloat32 float32
  | VBool bool
  | VMap "(string \<times> val) list"
  | VList "val list"
  | VConfig "DatabaseLogsinkConfig option"

datatype panic = TypeAssertion | IndexOutOfRange | NilDereference

fun asString :: "val \<Rightarrow> string option" where
  "asString (VString s) = Some s"
| "asString _ = None"

fun asInt :: "val \<Rightarrow> int option" where
  "asInt (VInt i) = Some i"
| "asInt _ = None"

fun asFloat32 :: "val \<Rightarrow> float32 option" where
  "asFloat32 (VFloat32 f) = Some f"
| "asFloat32 _ = None"

fun asBool :: "val \<Rightarrow> bool option" where
  "asBool (VBool b) = Some b"
| "asBool _ = None"

fun asMap :: "val \<Rightarrow> (string \<times> val) list option" where
  "asMap (VMap m) = Some m"
| "asMap _ = None"

fun asList :: "val \<Rightarrow> val list option" where
  "asList (VList xs) = Some xs"
| "asList _ = None"

fun asConfigPtr :: "val \<Rightarrow> DatabaseLogsinkConfig option option" where
  "asConfigPtr (VConfig c) = Some c"
| "asConfigPtr _ = None"

text \<open>\<^verbatim>\<open>m[k]\<close> on a Go map: the nil interface when the key is missing.\<close>

definition index :: "(string \<times> val) list \<Rightarrow> string \<Rightarrow> val" where
  "index m k = (case map_of m k of None \<Rightarrow> VNil | Some v \<Rightarrow> v)"

section \<open>Expanding and flattening the config block\<close>

text \<open>The thirteen assertions of \<^verbatim>\<open>expandLogsinkConfig\<close>, in the order of the struct
  literal; the first one that fails panics.\<close>

definition expandFields :: "(string \<times> val) list \<Rightarrow> DatabaseLogsinkConfig option" where
  "expandFields configMap = do {
     url \<leftarrow> asString (index configMap ''url'');
     index_prefix \<leftarrow> asString (index configMap ''index_prefix'');
     index_days_max \<leftarrow> asInt (index configMap ''index_days_max'');
     timeout \<leftarrow> asFloat32 (index configMap ''timeout'');
     server \<leftarrow> asString (index configMap ''server'');
     port \<leftarrow> asInt (index configMap ''port'');
     tls \<leftarrow> asBool (index configMap ''tls'');
     format \<leftarrow> asString (index configMap ''format'');
     logline \<leftarrow> asString (index configMap ''logline'');
     sd \<leftarrow> asString (index configMap ''sd'');
     ca \<leftarrow> asString (index configMap ''ca'');
     key \<leftarrow> asString (index configMap ''key'');
     cert \<leftarrow> asString (index configMap ''cert'');
     Some \<lparr>URL = url, IndexPrefix = index_prefix, IndexDaysMax = index_days_max,
           Timeout = timeout, Server = server, Port = port, TLS = tls, Format = format,
           Logline = logline, SD = sd, CA = ca, Key = key, Cert = cert\<rparr>
   }"

definition expandLogsinkConfig :: "val list \<Rightarrow> panic + DatabaseLogsinkConfig" where
  "expandLogsinkConfig config =
     (case config of
        [] \<Rightarrow> Inl IndexOutOfRange
      | c0 # _ \<Rightarrow>
          (case asMap c0 of
             None \<Rightarrow> Inl TypeAssertion
           | Some configMap \<Rightarrow>
               (case expandFields configMap of
                  None \<Rightarrow> Inl TypeAssertion
                | Some sinkConfig \<Rightarrow> Inr sinkConfig)))"

text \<open>\<^verbatim>\<open>flattenLogsinkConfig\<close>: one map in a one-element slice; reading a field of a nil
  config panics.\<close>

definition flattenItem :: "DatabaseLogsinkConfig \<Rightarrow> (string \<times> val) list" where
  "flattenItem config =
     [(''urls'', VString (URL config)),
      (''index_prefix'', VString (IndexPrefix config)),
      (''index_days_max'', VInt (IndexDaysMax config)),
      (''timeout'', VFloat32 (Timeout config)),
      (''server'', VString (Server config)),
      (''port'', VInt (Port config)),
      (''tls'', VBool (TLS config)),
      (''format'', VString (Format config)),
      (''logline'', VString (Logline config)),
      (''sd'', VString (SD config)),
      (''ca'', VString (CA config)),
      (''key'', VString (Key config)),
      (''cert'', VString (Cert config))]"

definition flattenLogsinkConfig ::
  "DatabaseLogsinkConfig option \<Rightarrow> panic + (string \<times> val) list list" where
  "flattenLogsinkConfig config =
     (case config of
        None \<Rightarrow> Inl NilDereference
      | Some c \<Rightarrow> Inr ([] @ [flattenItem c]))"

section \<open>The SDK's resource data and the API client\<close>

text \<open>\<^verbatim>\<open>godo.DatabaseLogsink\<close>; \<open>Config\<close> is a pointer.\<close>

record DatabaseLogsink =
  ID :: string
  Name :: string
  Type :: string
  Config :: "DatabaseLogsinkConfig option"

text \<open>\<^verbatim>\<open>godo.DatabaseCreateLogsinkRequest\<close> and \<^verbatim>\<open>godo.DatabaseUpdateLogsinkRequest\<close>, with
  the fields the two struct literals of the source fill in.\<close>

record DatabaseCreateLogsinkRequest =
  crName :: string
  crType :: string
  crConfig :: "DatabaseLogsinkConfig option"

record DatabaseUpdateLogsinkRequest =
  upConfig :: "DatabaseLogsinkConfig option"

text \<open>\<^verbatim>\<open>godo.Response\<close>: the HTTP status, and what decoding the body as JSON into a fresh
  \<^verbatim>\<open>godo.DatabaseLogsink\<close> leaves there (Update reads nothing else of it).\<close>

record Response =
  StatusCode :: int
  Body :: DatabaseLogsink

text \<open>A Go \<^verbatim>\<open>error\<close> is its message.\<close>

type_synonym error = string

text \<open>The four calls on \<^verbatim>\<open>client.Databases\<close>. The client library is outside the
  repository, so each call is a parameter: any function from the arguments to the values
  the Go call returns (pointers as options).\<close>

record GodoClient =
  CreateLogsink :: "string \<Rightarrow> DatabaseCreateLogsinkRequest
                    \<Rightarrow> DatabaseLogsink option \<times> Response option \<times> error option"
  GetLogsink :: "string \<Rightarrow> string
                    \<Rightarrow> DatabaseLogsink option \<times> Response option \<times> error option"
  UpdateLogsink :: "string \<Rightarrow> string \<Rightarrow> DatabaseUpdateLogsinkRequest
                    \<Rightarrow> Response option \<times> error option"
  DeleteLogsink :: "string \<Rightarrow> string \<Rightarrow> Response option \<times> error option"

text \<open>The value types of the resource's schema (\<^verbatim>\<open>schema.TypeString\<close>, \<^verbatim>\<open>schema.TypeMap\<close>) and
  the schema itself: the four attributes that \<^verbatim>\<open>ResourceDigitalOceanDatabaseLogsink\<close>
  declares. There is no attribute \<open>id\<close>, and \<open>config\<close> is a map.\<close>

datatype ValueType = TypeString | TypeMap

definition schemaType :: "string \<Rightarrow> ValueType option" where
  "schemaType k =
     (if k = ''name'' then Some TypeString
      else if k = ''cluster_id'' then Some TypeString
      else if k = ''type'' then Some TypeString
      else if k = ''config'' then Some TypeMap
      else None)"

text \<open>\<^verbatim>\<open>schema.ResourceData\<close> is the SDK's; it holds the data of one resource under the
  schema above: the identifier that \<^verbatim>\<open>d.Id()\<close> and \<^verbatim>\<open>d.SetId\<close> use, a string for every
  \<^verbatim>\<open>TypeString\<close> attribute and a \<^verbatim>\<open>map[string]interface{}\<close> for every \<^verbatim>\<open>TypeMap\<close> attribute
  (the zero value where the attribute is unset). \<open>setRefusal\<close> is the error the SDK
  returns when it refuses a write; its text is the SDK's own.\<close>

record ResourceData =
  resId :: string
  strings :: "string \<Rightarrow> string"
  maps :: "string \<Rightarrow> (string \<times> val) list"
  setRefusal :: "string \<Rightarrow> val \<Rightarrow> error"

text \<open>\<^verbatim>\<open>d.Get\<close>: the value of an attribute of the schema, with the Go type of its schema
  type; the nil interface for a key the schema does not have.\<close>

definition Get :: "ResourceData \<Rightarrow> string \<Rightarrow> val" where
  "Get d k =
     (case schemaType k of
        None \<Rightarrow> VNil
      | Some TypeString \<Rightarrow> VString (strings d k)
      | Some TypeMap \<Rightarrow> VMap (maps d k))"

fun isZero :: "val \<Rightarrow> bool" where
  "isZero VNil = True"
| "isZero (VString s) = (s = [])"
| "isZero (VInt i) = (i = 0)"
| "isZero (VFloat32 f) = (f = 0 \<or> f = 0x80000000)"
| "isZero (VBool b) = (\<not> b)"
| "isZero (VMap m) = (m = [])"
| "isZero (VList xs) = (xs = [])"
| "isZero (VConfig c) = (c = None)"

text \<open>\<^verbatim>\<open>d.GetOk\<close>: the value, and whether the attribute has been set to a non-zero value.\<close>

definition GetOk :: "ResourceData \<Rightarrow> string \<Rightarrow> val \<times> bool" where
  "GetOk d k = (Get d k, \<not> isZero (Get d k))"

text \<open>\<^verbatim>\<open>d.Set\<close>: the SDK writes a string to a \<^verbatim>\<open>TypeString\<close> attribute and a map to a
  \<^verbatim>\<open>TypeMap\<close> attribute. It refuses, with an error and without writing, a key that the
  schema does not have and a value that is not a map for a \<^verbatim>\<open>TypeMap\<close> attribute. (The
  source writes nothing but strings to its \<^verbatim>\<open>TypeString\<close> attributes.)\<close>

definition Set :: "ResourceData \<Rightarrow> string \<Rightarrow> val \<Rightarrow> ResourceData \<times> error option" where
  "Set d k v =
     (case (schemaType k, v) of
        (Some TypeString, VString s) \<Rightarrow> (d\<lparr>strings := (strings d)(k := s)\<rparr>, None)
      | (Some TypeMap, VMap m) \<Rightarrow> (d\<lparr>maps := (maps d)(k := m)\<rparr>, None)
      | _ \<Rightarrow> (d, Some (setRefusal d k v)))"

definition SetId :: "ResourceData \<Rightarrow> string \<Rightarrow> ResourceData" where
  "SetId d v = d\<lparr>resId := v\<rparr>"

section \<open>The resource operations\<close>

text \<open>What an operation did, as seen from outside: its calls on \<^verbatim>\<open>logsinkMutexKV\<close> and
  on the API client.\<close>

datatype event =
    Lock string
  | Unlock string
  | CallCreateLogsink string DatabaseCreateLogsinkRequest
  | CallGetLogsink string string
  | CallUpdateLogsink string string DatabaseUpdateLogsinkRequest
  | CallDeleteLogsink string string

text \<open>How an operation ends: it returns nil diagnostics, it returns an error with a
  message, or it panics. \<open>DiagV text err\<close> is the error whose message is the text
  followed by \<open>err\<close> as \<^verbatim>\<open>%#v\<close> prints it, which depends on the Go type of \<open>err\<close>.\<close>

datatype outcome = Ok | Diag string | DiagV string error | Panicked panic

type_synonym result = "ResourceData \<times> outcome \<times> event list"

definition makeDatabaseLogsinkID :: "string \<Rightarrow> string \<Rightarrow> string" where
  "makeDatabaseLogsinkID clusterID name = clusterID @ ''/logsink/'' @ name"

text \<open>The key of the three \<^verbatim>\<open>fmt.Sprintf("digitalocean_database_cluster/%s/log_sinks", clusterID)\<close>.\<close>

definition lockKey :: "string \<Rightarrow> string" where
  "lockKey clusterID = ''digitalocean_database_cluster/'' @ clusterID @ ''/log_sinks''"

text \<open>\<^verbatim>\<open>logsinkMutexKV.Lock(key); defer logsinkMutexKV.Unlock(key)\<close> followed by the rest of
  the function: the deferred call runs when the rest returns and when it panics.\<close>

definition lockedDefer :: "string \<Rightarrow> result \<Rightarrow> result" where
  "lockedDefer key rest =
     (case rest of (d, r, evs) \<Rightarrow> (d, r, [Lock key] @ evs @ [Unlock key]))"

text \<open>The callers of \<^verbatim>\<open>setDatabaseLogsinkAttributes\<close> drop the diagnostics it returns and
  go on to \<^verbatim>\<open>return nil\<close>; a panic is not dropped.\<close>

fun dropDiag :: "outcome \<Rightarrow> outcome" where
  "dropDiag (Panicked p) = Panicked p"
| "dropDiag _ = Ok"

definition setDatabaseLogsinkAttributes ::
  "ResourceData \<Rightarrow> DatabaseLogsink option \<Rightarrow> ResourceData \<times> outcome" where
  "setDatabaseLogsinkAttributes d logsink =
     (case logsink of
        None \<Rightarrow> (d, Panicked NilDereference)
      | Some l \<Rightarrow>
          let d1 = fst (Set d ''id'' (VString (ID l)));
              d2 = fst (Set d1 ''name'' (VString (Name l)));
              d3 = fst (Set d2 ''type'' (VString (Type l)))
          in if snd (GetOk d3 ''config'') then
               (case flattenLogsinkConfig (Config l) of
                  Inl p \<Rightarrow> (d3, Panicked p)
                | Inr flat \<Rightarrow>
                    (case Set d3 ''config'' (VList (map VMap flat)) of
                       (d4, Some err) \<Rightarrow>
                         (d4, DiagV ''[DEBUG] Error setting longsink config - error: '' err)
                     | (d4, None) \<Rightarrow> (d4, Ok)))
             else (d3, Ok))"

definition resourceDigitalOceanDatabaseLogsinkCreate ::
  "GodoClient \<Rightarrow> ResourceData \<Rightarrow> result" where
  "resourceDigitalOceanDatabaseLogsinkCreate client d =
     (case asString (Get d ''cluster_id'') of
        None \<Rightarrow> (d, Panicked TypeAssertion, [])
      | Some clusterID \<Rightarrow>
     (case asString (Get d ''name'') of
        None \<Rightarrow> (d, Panicked TypeAssertion, [])
      | Some name \<Rightarrow>
     (case asString (Get d ''type'') of
        None \<Rightarrow> (d, Panicked TypeAssertion, [])
      | Some type \<Rightarrow>
     (case asConfigPtr (Get d ''config'') of
        None \<Rightarrow> (d, Panicked TypeAssertion, [])
      | Some config \<Rightarrow>
          let opts = \<lparr>crName = name, crType = type, crConfig = config\<rparr>;
              key = lockKey clusterID
          in lockedDefer key
               (case CreateLogsink client clusterID opts of
                  (logsink, resp, Some err) \<Rightarrow>
                    (d, Diag (''Error creating Database Logsink: '' @ err),
                     [CallCreateLogsink clusterID opts])
                | (None, resp, None) \<Rightarrow>
                    (d, Panicked NilDereference, [CallCreateLogsink clusterID opts])
                | (Some l, resp, None) \<Rightarrow>
                    (case setDatabaseLogsinkAttributes
                            (SetId d (makeDatabaseLogsinkID clusterID (Name l))) (Some l) of
                       (d', r) \<Rightarrow> (d', dropDiag r, [CallCreateLogsink clusterID opts])))))))"

definition resourceDigitalOceanDatabaseLogsinkRead ::
  "GodoClient \<Rightarrow> ResourceData \<Rightarrow> result" where
  "resourceDigitalOceanDatabaseLogsinkRead client d =
     (case asString (Get d ''id'') of
        None \<Rightarrow> (d, Panicked TypeAssertion, [])
      | Some id' \<Rightarrow>
     (case asString (Get d ''cluster_id'') of
        None \<Rightarrow> (d, Panicked TypeAssertion, [])
      | Some clusterID \<Rightarrow>
          (case GetLogsink client clusterID id' of
             (logsink, resp, Some err) \<Rightarrow>
               if (case resp of None \<Rightarrow> False | Some r \<Rightarrow> StatusCode r = 404)
               then (SetId d '''', Ok, [CallGetLogsink clusterID id'])
               else (d, Diag (''Error retrieving Database Logsink: '' @ err),
                     [CallGetLogsink clusterID id'])
           | (logsink, resp, None) \<Rightarrow>
               (case setDatabaseLogsinkAttributes d logsink of
                  (d', r) \<Rightarrow> (d', dropDiag r, [CallGetLogsink clusterID id'])))))"

definition resourceDigitalOceanDatabaseLogsinkUpdate ::
  "GodoClient \<Rightarrow> ResourceData \<Rightarrow> result" where
  "resourceDigitalOceanDatabaseLogsinkUpdate client d =
     (case asString (Get d ''cluster_id'') of
        None \<Rightarrow> (d, Panicked TypeAssertion, [])
      | Some clusterID \<Rightarrow>
     (case asString (Get d ''name'') of
        None \<Rightarrow> (d, Panicked TypeAssertion, [])
      | Some name \<Rightarrow>
     (case asList (Get d ''config'') of
        None \<Rightarrow> (d, Panicked TypeAssertion, [])
      | Some config \<Rightarrow>
     (case expandLogsinkConfig config of
        Inl p \<Rightarrow> (d, Panicked p, [])
      | Inr sinkConfig \<Rightarrow>
          let opts = \<lparr>upConfig = Some sinkConfig\<rparr>;
              key = lockKey clusterID
          in lockedDefer key
               (case UpdateLogsink client clusterID name opts of
                  (resp, Some err) \<Rightarrow>
                    (d, Diag (''Error updating Database Logsink: '' @ err),
                     [CallUpdateLogsink clusterID name opts])
                | (None, None) \<Rightarrow>
                    (d, Panicked NilDereference, [CallUpdateLogsink clusterID name opts])
                | (Some r, None) \<Rightarrow>
                    (case setDatabaseLogsinkAttributes d (Some (Body r)) of
                       (d', r') \<Rightarrow>
                         (d', dropDiag r', [CallUpdateLogsink clusterID name opts])))))))"

definition resourceDigitalOceanDatabaseLogsinkDelete ::
  "GodoClient \<Rightarrow> ResourceData \<Rightarrow> result" where
  "resourceDigitalOceanDatabaseLogsinkDelete client d =
     (case asString (Get d ''cluster_id'') of
        None \<Rightarrow> (d, Panicked TypeAssertion, [])
      | Some clusterID \<Rightarrow>
     (case asString (Get d ''id'') of
        None \<Rightarrow> (d, Panicked TypeAssertion, [])
      | Some id' \<Rightarrow>
          lockedDefer (lockKey clusterID)
            (case DeleteLogsink client clusterID id' of
               (resp, Some err) \<Rightarrow>
                 (d, Diag (''Error deleting Database Logsink: '' @ err),
                  [CallDeleteLogsink clusterID id'])
             | (resp, None) \<Rightarrow>
                 (SetId d '''', Ok, [CallDeleteLogsink clusterID id']))))"

text \<open>\<^verbatim>\<open>strings.Split(s, ",")\<close>: the pieces between the commas, one more than there are
  commas. A comma is one byte and no part of a longer UTF-8 sequence.\<close>

fun splitComma :: "string \<Rightarrow> string list" where
  "splitComma [] = [[]]"
| "splitComma (c # cs) =
     (if c = CHR '','' then [] # splitComma cs
      else (case splitComma cs of
              [] \<Rightarrow> [[c]]
            | p # ps \<Rightarrow> (c # p) # ps))"

text \<open>Import returns the resource data it was given in a one-element slice, or an
  error; indexing the pieces out of range would panic.\<close>

datatype imported = Imported "ResourceData list" | ImportError error | ImportPanicked panic

definition importFormatError :: error where
  "importFormatError =
     ''must use the ID of the source database cluster and the name of the logsink joined with a comma (e.g. `id,name`)''"

definition resourceDigitalOceanDatabaseLogsinkImport ::
  "ResourceData \<Rightarrow> ResourceData \<times> imported" where
  "resourceDigitalOceanDatabaseLogsinkImport d =
     (if CHR '','' \<in> set (resId d) then
        (case splitComma (resId d) of
           s0 # s1 # _ \<Rightarrow>
             let d1 = SetId d (makeDatabaseLogsinkID s0 s1);
                 d2 = fst (Set d1 ''cluster_id'' (VString s0));
                 d3 = fst (Set d2 ''name'' (VString s1))
             in (d3, Imported [d3])
         | _ \<Rightarrow> (d, ImportPanicked IndexOutOfRange))
      else (d, ImportError importFormatError))"

section \<open>Concrete inputs\<close>

text \<open>The rsyslog sink of the acceptance test, under a cluster \<open>cluster123\<close>: the remote
  config and the remote object; the resource data of that sink as the SDK holds it under
  the schema; resource data as Import receives it, with nothing but the key given on
  the command line; and a client whose every call fails with a given HTTP status and
  error message.\<close>

definition rsyslogConfig :: DatabaseLogsinkConfig where
  "rsyslogConfig =
     \<lparr>URL = '''', IndexPrefix = '''', IndexDaysMax = 0, Timeout = 0, Server = ''localhost'',
      Port = 443, TLS = True, Format = ''rfc5424'', Logline = '''', SD = '''', CA = '''',
      Key = '''', Cert = ''''\<rparr>"

definition remoteSink :: DatabaseLogsink where
  "remoteSink =
     \<lparr>ID = ''sink-1'', Name = ''mysink'', Type = ''rsyslog'', Config = Some rsyslogConfig\<rparr>"

definition storedData :: ResourceData where
  "storedData =
     \<lparr>resId = ''cluster123/logsink/mysink'',
      strings = (\<lambda>k. '''')(''name'' := ''mysink'', ''cluster_id'' := ''cluster123'',
                           ''type'' := ''rsyslog''),
      maps = (\<lambda>k. [])(''config'' := [(''server'', VString ''localhost''),
                                     (''port'', VString ''443''), (''tls'', VString ''true''),
                                     (''format'', VString ''rfc5424'')]),
      setRefusal = (\<lambda>k v. ''refused'')\<rparr>"

definition importData :: "string \<Rightarrow> ResourceData" where
  "importData key =
     \<lparr>resId = key, strings = (\<lambda>k. ''''), maps = (\<lambda>k. []), setRefusal = (\<lambda>k v. ''refused'')\<rparr>"

definition errClient :: "int \<Rightarrow> error \<Rightarrow> GodoClient" where
  "errClient status msg =
     \<lparr>CreateLogsink =
        (\<lambda>c r. (None, Some \<lparr>StatusCode = status, Body = remoteSink\<rparr>, Some msg)),
      GetLogsink =
        (\<lambda>c i. (None, Some \<lparr>StatusCode = status, Body = remoteSink\<rparr>, Some msg)),
      UpdateLogsink = (\<lambda>c i r. (Some \<lparr>StatusCode = status, Body = remoteSink\<rparr>, Some msg)),
      DeleteLogsink = (\<lambda>c i. (Some \<lparr>StatusCode = status, Body = remoteSink\<rparr>, Some msg))\<rparr>"

section \<open>What the SDK hands to the operations\<close>

lemma Get_id: "Get d ''id'' = VNil"
  by (simp add: Get_def schemaType_def)

lemma Get_config: "Get d ''config'' = VMap (maps d ''config'')"
  by (simp add: Get_def schemaType_def)

lemma Get_strings:
  "Get d ''name'' = VString (strings d ''name'')"
  "Get d ''cluster_id'' = VString (strings d ''cluster_id'')"
  "Get d ''type'' = VString (strings d ''type'')"
  by (simp_all add: Get_def schemaType_def)

lemma Set_id: "Set d ''id'' v = (d, Some (setRefusal d ''id'' v))"
  by (simp add: Set_def schemaType_def)

lemma Set_config_list:
  "Set d ''config'' (VList xs) = (d, Some (setRefusal d ''config'' (VList xs)))"
  by (simp add: Set_def schemaType_def)

lemma Set_strings:
  "Set d ''name'' (VString s) = (d\<lparr>strings := (strings d)(''name'' := s)\<rparr>, None)"
  "Set d ''cluster_id'' (VString s) = (d\<lparr>strings := (strings d)(''cluster_id'' := s)\<rparr>, None)"
  "Set d ''type'' (VString s) = (d\<lparr>strings := (strings d)(''type'' := s)\<rparr>, None)"
  by (simp_all add: Set_def schemaType_def)

section \<open>Every operation panics on its way in\<close>

text \<open>Read and Delete assert \<^verbatim>\<open>d.Get("id")\<close> to be a string, and the schema has no \<open>id\<close>;
  Create asserts \<^verbatim>\<open>d.Get("config")\<close> to be a \<^verbatim>\<open>*godo.DatabaseLogsinkConfig\<close> and Update
  asserts it to be a \<^verbatim>\<open>[]interface{}\<close>, and the schema makes it a map. Each assertion comes
  before the operation takes the lock and before it calls the API.\<close>

lemma create_panics:
  "resourceDigitalOceanDatabaseLogsinkCreate client d = (d, Panicked TypeAssertion, [])"
  by (simp add: resourceDigitalOceanDatabaseLogsinkCreate_def Get_strings Get_config)

lemma read_panics:
  "resourceDigitalOceanDatabaseLogsinkRead client d = (d, Panicked TypeAssertion, [])"
  by (simp add: resourceDigitalOceanDatabaseLogsinkRead_def Get_id)

lemma update_panics:
  "resourceDigitalOceanDatabaseLogsinkUpdate client d = (d, Panicked TypeAssertion, [])"
  by (simp add: resourceDigitalOceanDatabaseLogsinkUpdate_def Get_strings Get_config)

lemma delete_panics:
  "resourceDigitalOceanDatabaseLogsinkDelete client d = (d, Panicked TypeAssertion, [])"
  by (simp add: resourceDigitalOceanDatabaseLogsinkDelete_def Get_strings Get_id)

section \<open>Flattening and expanding\<close>

lemma index_flattenItem_url: "index (flattenItem c) ''url'' = VNil"
  by (simp add: index_def flattenItem_def)

lemma expandFields_flattenItem: "expandFields (flattenItem c) = None"
  by (simp add: expandFields_def index_flattenItem_url)

lemma expand_flatten_head:
  "expandLogsinkConfig (VMap (flattenItem c) # rest) = Inl TypeAssertion"
  by (simp add: expandLogsinkConfig_def expandFields_flattenItem)

text \<open>
  C4. The claim: flattening the remote config into the local attribute form and expanding
  it again gives the config back, field by field. The code does not do so: the flattened
  map holds the URL under \<open>urls\<close>, the expansion reads \<open>url\<close>, finds the nil
  interface there and panics in its first type assertion, for every config.
\<close>

theorem flatten_then_expand_panics:
  "flattenLogsinkConfig (Some c) = Inr [flattenItem c]
   \<and> expandLogsinkConfig (map VMap [flattenItem c]) = Inl TypeAssertion"
  by (simp add: flattenLogsinkConfig_def expand_flatten_head)

section \<open>Import\<close>

lemma splitComma_not_Nil: "splitComma s \<noteq> []"
  by (induction s) (auto split: list.splits)

lemma splitComma_prefix:
  "CHR '','' \<notin> set p \<Longrightarrow> splitComma (p @ CHR '','' # rest) = p # splitComma rest"
  by (induction p) auto

lemma hd_splitComma: "hd (splitComma s) = takeWhile (\<lambda>c. c \<noteq> CHR '','') s"
  by (induction s) (auto split: list.splits simp: splitComma_not_Nil)

lemma splitComma_two:
  assumes "CHR '','' \<notin> set p"
  shows "\<exists>more. splitComma (p @ CHR '','' # rest)
           = p # takeWhile (\<lambda>c. c \<noteq> CHR '','') rest # more"
proof -
  obtain x xs where x: "splitComma rest = x # xs"
    using splitComma_not_Nil [of rest] by (cases "splitComma rest") auto
  with hd_splitComma [of rest] have "x = takeWhile (\<lambda>c. c \<noteq> CHR '','') rest" by simp
  with x assms show ?thesis by (simp add: splitComma_prefix)
qed

text \<open>
  C3. The claim: Import succeeds if and only if the key has exactly one comma between two
  non-empty parts. The code asks only whether the key contains a comma: a key with two
  commas is imported from its first two pieces, and a lone comma is imported with an empty
  cluster and an empty name.
\<close>

theorem import_accepts_other_keys:
  "count_list ''a,b,c'' CHR '','' = 2
   \<and> (\<exists>ds. snd (resourceDigitalOceanDatabaseLogsinkImport (importData ''a,b,c''))
           = Imported ds)
   \<and> resId (fst (resourceDigitalOceanDatabaseLogsinkImport (importData ''a,b,c'')))
       = ''a/logsink/b''
   \<and> (\<exists>ds. snd (resourceDigitalOceanDatabaseLogsinkImport (importData '','')) = Imported ds)
   \<and> resId (fst (resourceDigitalOceanDatabaseLogsinkImport (importData '',''))) = ''/logsink/''"
  by (simp add: resourceDigitalOceanDatabaseLogsinkImport_def importData_def SetId_def
      Set_strings makeDatabaseLogsinkID_def Let_def)

text \<open>
  C3, as the code has it. Import succeeds if and only if the key contains a comma. A key
  without one fails with the format error and the resource data stays as it was. For a key
  with a comma, the cluster is the text before the first comma and the name is the text
  between the first comma and the next one (or the end): the identifier becomes
  \<open>cluster/logsink/name\<close>, the resource data is returned in a one-element list, and
  \<open>cluster_id\<close> and \<open>name\<close> hold the two parts; nothing else is written.
\<close>

theorem import_needs_a_comma:
  "((\<exists>ds. snd (resourceDigitalOceanDatabaseLogsinkImport d) = Imported ds)
      \<longleftrightarrow> CHR '','' \<in> set (resId d))
   \<and> (CHR '','' \<notin> set (resId d) \<longrightarrow>
        resourceDigitalOceanDatabaseLogsinkImport d = (d, ImportError importFormatError))
   \<and> (\<forall>p rest. resId d = p @ CHR '','' # rest \<and> CHR '','' \<notin> set p \<longrightarrow>
        (\<exists>d'. resourceDigitalOceanDatabaseLogsinkImport d = (d', Imported [d'])
           \<and> resId d' = p @ ''/logsink/'' @ takeWhile (\<lambda>c. c \<noteq> CHR '','') rest
           \<and> Get d' ''cluster_id'' = VString p
           \<and> Get d' ''name'' = VString (takeWhile (\<lambda>c. c \<noteq> CHR '','') rest)
           \<and> strings d' = (strings d)(''cluster_id'' := p,
                ''name'' := takeWhile (\<lambda>c. c \<noteq> CHR '','') rest)
           \<and> maps d' = maps d))"
proof (intro conjI allI impI)
  show "CHR '','' \<notin> set (resId d) \<Longrightarrow>
      resourceDigitalOceanDatabaseLogsinkImport d = (d, ImportError importFormatError)"
    by (simp add: resourceDigitalOceanDatabaseLogsinkImport_def)
next
  fix p rest
  assume a: "resId d = p @ CHR '','' # rest \<and> CHR '','' \<notin> set p"
  let ?n = "takeWhile (\<lambda>c. c \<noteq> CHR '','') rest"
  from a splitComma_two [of p rest] obtain more
    where s: "splitComma (resId d) = p # ?n # more" by auto
  from a have c: "CHR '','' \<in> set (resId d)" by simp
  show "\<exists>d'. resourceDigitalOceanDatabaseLogsinkImport d = (d', Imported [d'])
           \<and> resId d' = p @ ''/logsink/'' @ ?n
           \<and> Get d' ''cluster_id'' = VString p
           \<and> Get d' ''name'' = VString ?n
           \<and> strings d' = (strings d)(''cluster_id'' := p, ''name'' := ?n)
           \<and> maps d' = maps d"
    using c s
    by (simp add: resourceDigitalOceanDatabaseLogsinkImport_def Let_def SetId_def Set_strings
        Get_strings makeDatabaseLogsinkID_def)
next
  show "(\<exists>ds. snd (resourceDigitalOceanDatabaseLogsinkImport d) = Imported ds)
      \<longleftrightarrow> CHR '','' \<in> set (resId d)"
  proof
    assume "\<exists>ds. snd (resourceDigitalOceanDatabaseLogsinkImport d) = Imported ds"
    then show "CHR '','' \<in> set (resId d)"
      by (auto simp: resourceDigitalOceanDatabaseLogsinkImport_def split: if_splits)
  next
    assume c: "CHR '','' \<in> set (resId d)"
    then obtain p rest where pr: "resId d = p @ CHR '','' # rest" "CHR '','' \<notin> set p"
      by (auto dest: split_list_first)
    with splitComma_two [of p rest] obtain more
      where "splitComma (resId d) = p # takeWhile (\<lambda>c. c \<noteq> CHR '','') rest # more" by auto
    with c show "\<exists>ds. snd (resourceDigitalOceanDatabaseLogsinkImport d) = Imported ds"
      by (simp add: resourceDigitalOceanDatabaseLogsinkImport_def Let_def)
  qed
qed

theorem import_needs_a_comma_witness:
  "resourceDigitalOceanDatabaseLogsinkImport (importData ''bad-format'')
     = (importData ''bad-format'', ImportError importFormatError)
   \<and> (\<exists>d'. resourceDigitalOceanDatabaseLogsinkImport (importData ''cluster123,mysink'')
            = (d', Imported [d'])
         \<and> resId d' = ''cluster123/logsink/mysink''
         \<and> Get d' ''cluster_id'' = VString ''cluster123''
         \<and> Get d' ''name'' = VString ''mysink'')"
proof -
  let ?bad = "importData ''bad-format''"
  let ?good = "importData ''cluster123,mysink''"
  have b: "CHR '','' \<notin> set (resId ?bad)" by (simp add: importData_def)
  have g: "resId ?good = ''cluster123'' @ CHR '','' # ''mysink'' \<and> CHR '','' \<notin> set ''cluster123''"
    by (simp add: importData_def)
  from import_needs_a_comma [of ?bad] b
  have 1: "resourceDigitalOceanDatabaseLogsinkImport ?bad = (?bad, ImportError importFormatError)"
    by blast
  from import_needs_a_comma [of ?good] g
  obtain d' where "resourceDigitalOceanDatabaseLogsinkImport ?good = (d', Imported [d'])"
    "resId d' = ''cluster123'' @ ''/logsink/'' @ takeWhile (\<lambda>c. c \<noteq> CHR '','') ''mysink''"
    "Get d' ''cluster_id'' = VString ''cluster123''"
    "Get d' ''name'' = VString (takeWhile (\<lambda>c. c \<noteq> CHR '','') ''mysink'')"
    by blast
  then have "resourceDigitalOceanDatabaseLogsinkImport ?good = (d', Imported [d'])
     \<and> resId d' = ''cluster123/logsink/mysink''
     \<and> Get d' ''cluster_id'' = VString ''cluster123''
     \<and> Get d' ''name'' = VString ''mysink''"
    by simp
  with 1 show ?thesis by blast
qed

section \<open>The lock\<close>

text \<open>
  C1. The claim: Create, Update and Delete each take the lock of the cluster's key before
  their mutating call, and Read makes its Get call without a lock. The code has the three
  \<^verbatim>\<open>Lock\<close>/\<^verbatim>\<open>defer Unlock\<close> pairs in front of the calls, but no operation gets that far:
  whatever the resource data and whatever the API would answer, each of the four makes no
  call at all, neither on the lock table nor on the API.
\<close>

theorem no_operation_reaches_its_lock:
  "resourceDigitalOceanDatabaseLogsinkCreate client d = (d, Panicked TypeAssertion, [])
   \<and> resourceDigitalOceanDatabaseLogsinkUpdate client d = (d, Panicked TypeAssertion, [])
   \<and> resourceDigitalOceanDatabaseLogsinkDelete client d = (d, Panicked TypeAssertion, [])
   \<and> resourceDigitalOceanDatabaseLogsinkRead client d = (d, Panicked TypeAssertion, [])
   \<and> Lock (lockKey (strings d ''cluster_id''))
        \<notin> set (snd (snd (resourceDigitalOceanDatabaseLogsinkCreate client d)))
            \<union> set (snd (snd (resourceDigitalOceanDatabaseLogsinkUpdate client d)))
            \<union> set (snd (snd (resourceDigitalOceanDatabaseLogsinkDelete client d)))"
  by (simp add: create_panics update_panics delete_panics read_panics)


section \<open>Delete\<close>

text \<open>
  C2. The claim: a Delete whose remote call reports not-found returns no error and clears
  the identifier. Delete reads \<open>id\<close>, which is the nil interface, and panics in the
  assertion before it calls the API: for every client, one that would answer 404 among
  them, it does not return, the identifier stays and no Delete call is made.
\<close>

theorem delete_never_succeeds:
  "asString (Get d ''id'') = None
   \<and> fst (snd (resourceDigitalOceanDatabaseLogsinkDelete client d)) = Panicked TypeAssertion
   \<and> resId (fst (resourceDigitalOceanDatabaseLogsinkDelete client d)) = resId d
   \<and> resourceDigitalOceanDatabaseLogsinkDelete (errClient 404 ''not found'') storedData
       = (storedData, Panicked TypeAssertion, [])"
  by (simp add: delete_panics Get_id)

section \<open>Read\<close>

text \<open>
  C5. The claim: a Read whose Get call reports not-found clears the identifier and returns
  no error, and any other failure of the call gives a read error. Read has both branches,
  but it reads \<open>id\<close> first, which is the nil interface, and panics in the assertion: the
  Get call is never made and the identifier is never cleared.
\<close>

theorem read_never_reaches_get:
  "asString (Get d ''id'') = None
   \<and> resourceDigitalOceanDatabaseLogsinkRead client d = (d, Panicked TypeAssertion, [])
   \<and> resourceDigitalOceanDatabaseLogsinkRead (errClient 404 ''not found'') storedData
       = (storedData, Panicked TypeAssertion, [])"
  by (simp add: read_panics Get_id)

text \<open>
  C8. The claim: a successful Read overwrites id, name, type and the whole config from the
  remote response. Read never gets to its writes. The function that makes them,
  \<^verbatim>\<open>setDatabaseLogsinkAttributes\<close>, overwrites \<open>name\<close> and \<open>type\<close>; its write of \<open>id\<close> is to
  a key that the schema does not have and its write of \<open>config\<close> is a list for a map
  attribute, so the SDK refuses both and the function drops or returns the errors: \<open>id\<close>
  stays the nil interface and \<open>config\<close> stays what it was.
\<close>

theorem id_and_config_are_never_written:
  "resourceDigitalOceanDatabaseLogsinkRead client d = (d, Panicked TypeAssertion, [])
   \<and> Get (fst (setDatabaseLogsinkAttributes d (Some l))) ''id'' = VNil
   \<and> Get (fst (setDatabaseLogsinkAttributes d (Some l))) ''config'' = Get d ''config''
   \<and> Get (fst (setDatabaseLogsinkAttributes d (Some l))) ''name'' = VString (Name l)
   \<and> Get (fst (setDatabaseLogsinkAttributes d (Some l))) ''type'' = VString (Type l)"
proof -
  have "fst (setDatabaseLogsinkAttributes d (Some l))
      = d\<lparr>strings := (strings d)(''name'' := Name l, ''type'' := Type l)\<rparr>"
    by (simp add: setDatabaseLogsinkAttributes_def Set_id Set_strings Set_config_list Let_def
        split: sum.splits)
  then show ?thesis
    by (simp add: read_panics Get_id Get_config Get_strings)
qed

section \<open>Create\<close>

text \<open>
  C6. The claim: when the Create call on the API fails, Create returns a create error
  and leaves no local state. Create asserts the \<open>config\<close> attribute, a map, to be a
  pointer to a config and panics before it calls the API: no call fails, and no create
  error is ever returned. (The resource data is indeed left as it was.)
\<close>

theorem create_never_reaches_the_call:
  "asConfigPtr (Get d ''config'') = None
   \<and> resourceDigitalOceanDatabaseLogsinkCreate client d = (d, Panicked TypeAssertion, [])
   \<and> resourceDigitalOceanDatabaseLogsinkCreate (errClient 500 ''boom'') storedData
       = (storedData, Panicked TypeAssertion, [])"
  by (simp add: create_panics Get_config)

section \<open>Update\<close>

text \<open>
  C7. The claim: the request of Update carries every mutable field. Update asserts the
  \<open>config\<close> attribute, a map, to be a list and panics before it builds a request: no
  request is ever sent.
\<close>

theorem update_sends_no_request:
  "asList (Get d ''config'') = None
   \<and> CallUpdateLogsink c n req \<notin> set (snd (snd (resourceDigitalOceanDatabaseLogsinkUpdate client d)))
   \<and> fst (snd (resourceDigitalOceanDatabaseLogsinkUpdate client d)) = Panicked TypeAssertion"
  by (simp add: update_panics Get_config)


end
